theory Spec2Isabelle
  imports Complex_Main "HOL-Library.Word" "HOL-Library.Signed_Division"
begin

section \<open>The float64 values of the Grade field\<close>

text \<open>
  Go's \<^verbatim>\<open>float64\<close> is IEEE 754 binary64. A value is a finite number (a rational
  that binary64 represents; \<open>Num 0\<close> is +0), the negative zero, an infinity with its
  sign (\<open>True\<close> for the negative one), or NaN. Arithmetic computes the exact rational
  result and rounds it to the nearest binary64 value, ties to even. Division by zero does
  not panic in Go: it gives an infinity, or NaN for 0/0.
\<close>

datatype float64 = Num rat | NegZero | Inf bool | NaN

function bit_length :: "int \<Rightarrow> int" where
  "bit_length k = (if k \<le> 0 then 0 else 1 + bit_length (k div 2))"
  by pat_completeness auto
termination
  by (relation "measure nat") auto

declare bit_length.simps [simp del]

definition pow2 :: "int \<Rightarrow> rat" where
  "pow2 k = (if 0 \<le> k then 2 ^ nat k else 1 / 2 ^ nat (- k))"

text \<open>For \<open>0 < q\<close>, \<open>floor_log2 q\<close> is the \<open>k\<close> with \<open>2^k \<le> q < 2^(k+1)\<close>.\<close>

definition floor_log2 :: "rat \<Rightarrow> int" where
  "floor_log2 q =
     (let (a, b) = quotient_of q;
          k = bit_length a - bit_length b
      in if pow2 k \<le> q then k else k - 1)"

definition round_half_even :: "rat \<Rightarrow> int" where
  "round_half_even q =
     (let f = \<lfloor>q\<rfloor>; d = q - of_int f
      in if d < 1 / 2 then f else if 1 / 2 < d then f + 1
         else if even f then f else f + 1)"

text \<open>
  Rounding to binary64: 53 significant bits, the least exponent -1022 (below it the
  subnormal spacing \<open>2^-1074\<close>), overflow to an infinity from \<open>2^1024\<close> on, and a
  zero that keeps the sign of the exact result.
\<close>

definition round64 :: "rat \<Rightarrow> float64" where
  "round64 q =
     (if q = 0 then Num 0
      else
        let e = max (floor_log2 \<bar>q\<bar>) (- 1022);
            ulp = pow2 (e - 52);
            r = of_int (round_half_even (\<bar>q\<bar> / ulp)) * ulp
        in if pow2 1024 \<le> r then Inf (q < 0)
           else if r = 0 then (if q < 0 then NegZero else Num 0)
           else Num (if q < 0 then - r else r))"

fun signbit :: "float64 \<Rightarrow> bool" where
  "signbit (Num q) = (q < 0)"
| "signbit NegZero = True"
| "signbit (Inf s) = s"
| "signbit NaN = False"

fun is_zero :: "float64 \<Rightarrow> bool" where
  "is_zero (Num q) = (q = 0)"
| "is_zero NegZero = True"
| "is_zero _ = False"

definition signed_zero :: "bool \<Rightarrow> float64" where
  "signed_zero s = (if s then NegZero else Num 0)"

text \<open>The operator \<^verbatim>\<open>+\<close> on float64.\<close>

fun fadd :: "float64 \<Rightarrow> float64 \<Rightarrow> float64" where
  "fadd NaN y = NaN"
| "fadd x NaN = NaN"
| "fadd (Inf s) (Inf t) = (if s = t then Inf s else NaN)"
| "fadd (Inf s) y = Inf s"
| "fadd x (Inf t) = Inf t"
| "fadd NegZero y = y"
| "fadd x NegZero = x"
| "fadd (Num a) (Num b) = round64 (a + b)"

text \<open>The operator \<^verbatim>\<open>/\<close> on float64.\<close>

fun fdiv :: "float64 \<Rightarrow> float64 \<Rightarrow> float64" where
  "fdiv NaN y = NaN"
| "fdiv x NaN = NaN"
| "fdiv (Inf s) (Inf t) = NaN"
| "fdiv (Inf s) y = Inf (s \<noteq> signbit y)"
| "fdiv x (Inf t) = signed_zero (signbit x \<noteq> t)"
| "fdiv x y =
     (if is_zero y then (if is_zero x then NaN else Inf (signbit x \<noteq> signbit y))
      else if is_zero x then signed_zero (signbit x \<noteq> signbit y)
      else case (x, y) of (Num a, Num b) \<Rightarrow> round64 (a / b) | _ \<Rightarrow> NaN)"

text \<open>The operator \<^verbatim>\<open>==\<close> on float64: NaN equals nothing, the two zeros are equal.\<close>

fun feq :: "float64 \<Rightarrow> float64 \<Rightarrow> bool" where
  "feq NaN y = False"
| "feq x NaN = False"
| "feq x y = ((is_zero x \<and> is_zero y) \<or> x = y)"

text \<open>The conversion \<^verbatim>\<open>float64(n)\<close> of an integer.\<close>

definition float64_of_int :: "int \<Rightarrow> float64" where
  "float64_of_int n = round64 (of_int n)"


section \<open>The Student record (types.go)\<close>

text \<open>
  \<^verbatim>\<open>ID int64\<close> is a 64-bit word read as two's complement. \<^verbatim>\<open>Age int\<close> is Go's
  \<^verbatim>\<open>int\<close>, 64 bits wide on the 64-bit targets modelled here.
\<close>

record Student =
  ID :: "64 word"
  Name :: string
  Grade :: float64
  Age :: "64 word"

text \<open>
  Go's \<^verbatim>\<open>%\<close> on int64 truncates towards zero: the remainder has the sign of the
  dividend (\<open>smod\<close> on \<open>int\<close>). The program divides by the constant 10 only; a zero
  divisor, where Go panics, does not occur.
\<close>

definition rem64 :: "64 word \<Rightarrow> 64 word \<Rightarrow> 64 word" where
  "rem64 a b = word_of_int (sint a smod sint b)"


section \<open>Program state\<close>

text \<open>
  A \<^verbatim>\<open>*Student\<close> is nil (\<open>None\<close>) or the address of a Student record. The store
  \<open>heap\<close> holds the records whose address is taken; \<open>next_addr\<close> is the next address the
  allocator hands out. Two pointers alias when they hold the same address.
  \<open>globalStudent\<close> is the package-level variable of escape-analysis.go. \<open>stdout\<close> logs
  the calls of fmt.Printf and fmt.Println, each with its format string and the values of
  its arguments, in the order of the calls.
\<close>

type_synonym Student_ptr = "nat option"

datatype val =
    VString string
  | VInt "64 word"
  | VUint64 "64 word"
  | VDuration "64 word"
  | VFloat float64
  | VBool bool
  | VStudent Student
  | VStudents "Student list"
  | VFloats "float64 list"
  | VPointer Student_ptr

datatype event = Printf string "val list" | Println "val list"

record state =
  heap :: "nat \<Rightarrow> Student"
  next_addr :: nat
  globalStudent :: Student_ptr
  stdout :: "event list"

text \<open>A run-time panic ends the call; it is the \<open>Inl\<close> of a function's result.\<close>

datatype panic = NilDereference

definition and_then :: "panic + 'a \<Rightarrow> ('a \<Rightarrow> panic + 'b) \<Rightarrow> panic + 'b" where
  "and_then r f = (case r of Inl e \<Rightarrow> Inl e | Inr x \<Rightarrow> f x)"

definition printf :: "string \<Rightarrow> val list \<Rightarrow> state \<Rightarrow> state" where
  "printf fmt args \<sigma> = \<sigma>\<lparr>stdout := stdout \<sigma> @ [Printf fmt args]\<rparr>"

definition println :: "val list \<Rightarrow> state \<Rightarrow> state" where
  "println args \<sigma> = \<sigma>\<lparr>stdout := stdout \<sigma> @ [Println args]\<rparr>"

text \<open>Reading through a pointer (\<^verbatim>\<open>*p\<close>, \<^verbatim>\<open>p.f\<close>) panics on nil.\<close>

definition load :: "Student_ptr \<Rightarrow> state \<Rightarrow> panic + Student" where
  "load p \<sigma> = (case p of None \<Rightarrow> Inl NilDereference | Some a \<Rightarrow> Inr (heap \<sigma> a))"

text \<open>Writing a field through a pointer (\<^verbatim>\<open>p.f = v\<close>) panics on nil.\<close>

definition store :: "Student_ptr \<Rightarrow> (Student \<Rightarrow> Student) \<Rightarrow> state \<Rightarrow> panic + state" where
  "store p upd \<sigma> =
     (case p of None \<Rightarrow> Inl NilDereference
      | Some a \<Rightarrow> Inr (\<sigma>\<lparr>heap := (heap \<sigma>)(a := upd (heap \<sigma> a))\<rparr>))"

text \<open>
  A Student variable whose address is taken (\<^verbatim>\<open>&student\<close>, \<^verbatim>\<open>&students[0]\<close>) lives in
  the store from its declaration on, at a fresh address \<open>a\<close>. The variable itself is
  read as \<open>heap \<sigma> a\<close>, and \<^verbatim>\<open>&student\<close> is \<open>Some a\<close>.
\<close>

definition new_Student :: "Student \<Rightarrow> state \<Rightarrow> nat \<times> state" where
  "new_Student s \<sigma> =
     (next_addr \<sigma>,
      \<sigma>\<lparr>heap := (heap \<sigma>)(next_addr \<sigma> := s), next_addr := next_addr \<sigma> + 1\<rparr>)"

text \<open>
  A slice argument is the list of its elements; a function that writes the elements
  returns the list as it leaves it, which is what the caller's slice then holds.
  \<^verbatim>\<open>for i := range xs\<close> runs the index from 0 to the length, and
  \<^verbatim>\<open>for _, x := range xs\<close> copies the element at the index into \<open>x\<close>. Indices are
  natural numbers: they stay below the length of a slice or below a small constant.

  A loop is a recursive function into \<open>option\<close>, where \<open>None\<close> stands for a loop
  that does not end, so that the return of a loop is a theorem and not a premise.
  Functions that contain a loop, or call one that does, return an \<open>option\<close>; those
  that read or write through a pointer return a sum, where \<open>Inl\<close> is a panic.
  \<open>then_do\<close> runs the rest of a function body after a call that returned.
  A function that prints, or that reads or writes the store, takes the state and returns
  the state it leaves, also where it only reads.
\<close>

definition then_do ::
  "(panic + 'a) option \<Rightarrow> ('a \<Rightarrow> (panic + 'b) option) \<Rightarrow> (panic + 'b) option" where
  "then_do m f = (case m of None \<Rightarrow> None | Some (Inl e) \<Rightarrow> Some (Inl e) | Some (Inr x) \<Rightarrow> f x)"


section \<open>values-vs-pointers.go\<close>

text \<open>
  A parameter of type Student is a local variable of the callee, initialised with the
  argument's value; assignments to its fields rebind the local.
\<close>

definition modifyStudentValue :: "Student \<Rightarrow> state \<Rightarrow> state" where
  "modifyStudentValue student \<sigma> =
     (let student = student\<lparr>Grade := Num 100\<rparr>;
          student = student\<lparr>Name := ''Modified '' @ Name student\<rparr>
      in printf ''Inside modifyStudentValue: %+v\<newline>'' [VStudent student] \<sigma>)"

definition calculateGPAValue :: "Student \<Rightarrow> Student \<Rightarrow> Student \<Rightarrow> float64" where
  "calculateGPAValue student1 student2 student3 =
     (let total' = fadd (fadd (Grade student1) (Grade student2)) (Grade student3)
      in fdiv total' (Num 3))"

definition createStudentCopy :: "Student \<Rightarrow> string \<Rightarrow> 64 word \<Rightarrow> Student" where
  "createStudentCopy template newName newID =
     (let newStudent = template;
          newStudent = newStudent\<lparr>Name := newName\<rparr>;
          newStudent = newStudent\<lparr>ID := newID\<rparr>
      in newStudent)"

definition modifyStudentPointer :: "Student_ptr \<Rightarrow> state \<Rightarrow> panic + state" where
  "modifyStudentPointer student \<sigma> =
     (if student = None then Inr \<sigma>
      else
        and_then (store student (\<lambda>s. s\<lparr>Grade := Num 100\<rparr>) \<sigma>) (\<lambda>\<sigma>.
        and_then (load student \<sigma>) (\<lambda>old.
        and_then (store student (\<lambda>s. s\<lparr>Name := ''Modified '' @ Name old\<rparr>) \<sigma>) (\<lambda>\<sigma>.
        and_then (load student \<sigma>) (\<lambda>s.
        Inr (printf ''Inside modifyStudentPointer: %+v\<newline>'' [VStudent s] \<sigma>))))))"

definition calculateGPAPointer ::
  "Student_ptr \<Rightarrow> Student_ptr \<Rightarrow> Student_ptr \<Rightarrow> state \<Rightarrow> panic + float64 \<times> state" where
  "calculateGPAPointer student1 student2 student3 \<sigma> =
     (if student1 = None \<or> student2 = None \<or> student3 = None then Inr (Num 0, \<sigma>)
      else
        and_then (load student1 \<sigma>) (\<lambda>s1.
        and_then (load student2 \<sigma>) (\<lambda>s2.
        and_then (load student3 \<sigma>) (\<lambda>s3.
        let total' = fadd (fadd (Grade s1) (Grade s2)) (Grade s3)
        in Inr (fdiv total' (Num 3), \<sigma>)))))"

definition updateGradeInPlace :: "Student_ptr \<Rightarrow> float64 \<Rightarrow> state \<Rightarrow> panic + state" where
  "updateGradeInPlace student newGrade \<sigma> =
     (if student = None then Inr \<sigma>
      else store student (\<lambda>s. s\<lparr>Grade := newGrade\<rparr>) \<sigma>)"

partial_function (option) modifyGradesSlice_loop ::
  "float64 list \<Rightarrow> nat \<Rightarrow> float64 list option" where
  "modifyGradesSlice_loop grades i =
     (if i < length grades
      then modifyGradesSlice_loop (grades[i := fadd (grades ! i) (Num 5)]) (i + 1)
      else Some grades)"

definition modifyGradesSlice :: "float64 list \<Rightarrow> state \<Rightarrow> (float64 list \<times> state) option" where
  "modifyGradesSlice grades \<sigma> =
     (case modifyGradesSlice_loop grades 0 of
        None \<Rightarrow> None
      | Some grades \<Rightarrow>
          Some (grades, printf ''Inside modifyGradesSlice: %v\<newline>'' [VFloats grades] \<sigma>))"

text \<open>
  The parameter \<^verbatim>\<open>students *[]Student\<close> points to a slice variable of the caller. It is
  passed as what the variable holds (\<open>None\<close> for a nil pointer), and the call returns
  what it leaves in the variable.
\<close>

definition addStudentToClass :: "Student list option \<Rightarrow> Student \<Rightarrow> panic + Student list" where
  "addStudentToClass students newStudent =
     (case students of
        None \<Rightarrow> Inl NilDereference
      | Some class \<Rightarrow> Inr (class @ [newStudent]))"

definition demonstrateValueBehavior :: "state \<Rightarrow> state" where
  "demonstrateValueBehavior \<sigma> =
     (let \<sigma> = println [VString ''=== VALUE BEHAVIOR ===''] \<sigma>;
          original = \<lparr>ID = 1, Name = ''Alice'', Grade = Num 85, Age = 20\<rparr>;
          \<sigma> = printf ''Original student: %+v\<newline>'' [VStudent original] \<sigma>;
          \<sigma> = modifyStudentValue original \<sigma>;
          \<sigma> = printf ''After modifyStudentValue: %+v\<newline>'' [VStudent original] \<sigma>;
          copy' = createStudentCopy original ''Alice Clone'' 2;
          \<sigma> = printf ''Created copy: %+v\<newline>'' [VStudent copy'] \<sigma>;
          \<sigma> = printf ''Original still: %+v\<newline>'' [VStudent original] \<sigma>
      in \<sigma>)"

definition demonstratePointerBehavior :: "state \<Rightarrow> panic + state" where
  "demonstratePointerBehavior \<sigma> =
     (let \<sigma> = println [VString ''\<newline>=== POINTER BEHAVIOR ===''] \<sigma>;
          (original, \<sigma>) = new_Student \<lparr>ID = 3, Name = ''Bob'', Grade = Num 78, Age = 21\<rparr> \<sigma>;
          \<sigma> = printf ''Original student: %+v\<newline>'' [VStudent (heap \<sigma> original)] \<sigma>
      in
        and_then (modifyStudentPointer (Some original) \<sigma>) (\<lambda>\<sigma>.
        let \<sigma> = printf ''After modifyStudentPointer: %+v\<newline>'' [VStudent (heap \<sigma> original)] \<sigma>;
            ptr1 = Some original;
            ptr2 = Some original
        in
        and_then (load ptr1 \<sigma>) (\<lambda>s1.
        let \<sigma> = printf ''Pointer 1 points to: %+v\<newline>'' [VStudent s1] \<sigma> in
        and_then (load ptr2 \<sigma>) (\<lambda>s2.
        let \<sigma> = printf ''Pointer 2 points to: %+v\<newline>'' [VStudent s2] \<sigma> in
        and_then (store ptr1 (\<lambda>s. s\<lparr>Grade := Num 95\<rparr>) \<sigma>) (\<lambda>\<sigma>.
        let \<sigma> = printf ''After changing via ptr1:\<newline>'' [] \<sigma>;
            \<sigma> = printf ''  original: %+v\<newline>'' [VStudent (heap \<sigma> original)] \<sigma> in
        and_then (load ptr1 \<sigma>) (\<lambda>s1.
        let \<sigma> = printf ''  ptr1: %+v\<newline>'' [VStudent s1] \<sigma> in
        and_then (load ptr2 \<sigma>) (\<lambda>s2.
        Inr (printf ''  ptr2: %+v\<newline>'' [VStudent s2] \<sigma>))))))))"

partial_function (option) demonstrateSliceBehavior_loop ::
  "Student list \<Rightarrow> nat \<Rightarrow> state \<Rightarrow> state option" where
  "demonstrateSliceBehavior_loop class i \<sigma> =
     (if i < length class
      then let student = class ! i
           in demonstrateSliceBehavior_loop class (i + 1)
                (printf ''  %s: %.1f\<newline>'' [VString (Name student), VFloat (Grade student)] \<sigma>)
      else Some \<sigma>)"

definition demonstrateSliceBehavior :: "state \<Rightarrow> (panic + state) option" where
  "demonstrateSliceBehavior \<sigma> =
     (let \<sigma> = println [VString ''\<newline>=== SLICE BEHAVIOR (REFERENCE TYPE) ===''] \<sigma>;
          grades = [Num 85, Num 92, Num 78, Num 88];
          \<sigma> = printf ''Original grades: %v\<newline>'' [VFloats grades] \<sigma>
      in
        then_do (map_option Inr (modifyGradesSlice grades \<sigma>)) (\<lambda>(grades, \<sigma>).
        let \<sigma> = printf ''After modifyGradesSlice: %v\<newline>'' [VFloats grades] \<sigma>;
            class = [];
            \<sigma> = printf ''Empty class: %v\<newline>'' [VStudents class] \<sigma>
        in
        then_do (Some (addStudentToClass (Some class)
                   \<lparr>ID = 1, Name = ''Charlie'', Grade = Num 82, Age = 19\<rparr>)) (\<lambda>class.
        then_do (Some (addStudentToClass (Some class)
                   \<lparr>ID = 2, Name = ''Diana'', Grade = Num 91, Age = 20\<rparr>)) (\<lambda>class.
        let \<sigma> = printf ''Class after adding students: %d students\<newline>''
                   [VInt (of_nat (length class))] \<sigma>
        in map_option Inr (demonstrateSliceBehavior_loop class 0 \<sigma>)))))"

text \<open>
  The elements of \<open>students\<close> have their addresses taken (\<^verbatim>\<open>&students[0]\<close>), so the
  three records of the slice live in the store and the slice is the list of their
  addresses. The indices 0, 1 and 2 are within its length 3.
\<close>

definition demonstrateWhenToUseEach :: "state \<Rightarrow> panic + state" where
  "demonstrateWhenToUseEach \<sigma> =
     (let \<sigma> = println [VString ''\<newline>=== WHEN TO USE VALUES vs POINTERS ===''] \<sigma>;
          (s0, \<sigma>) = new_Student \<lparr>ID = 1, Name = ''Alice'', Grade = Num 85, Age = 20\<rparr> \<sigma>;
          (s1, \<sigma>) = new_Student \<lparr>ID = 2, Name = ''Bob'', Grade = Num 92, Age = 21\<rparr> \<sigma>;
          (s2, \<sigma>) = new_Student \<lparr>ID = 3, Name = ''Charlie'', Grade = Num 78, Age = 19\<rparr> \<sigma>;
          students = [s0, s1, s2];
          \<sigma> = println [VString ''\<newline>1. For READ-ONLY operations - use VALUES:''] \<sigma>;
          gpa = calculateGPAValue (heap \<sigma> (students ! 0)) (heap \<sigma> (students ! 1))
                  (heap \<sigma> (students ! 2));
          \<sigma> = printf ''   GPA (by value): %.2f\<newline>'' [VFloat gpa] \<sigma>;
          \<sigma> = printf ''   Students unchanged: %v\<newline>''
                [VBool (feq (Grade (heap \<sigma> (students ! 0))) (Num 85))] \<sigma>;
          \<sigma> = println [VString ''\<newline>2. For MODIFICATIONS - use POINTERS:''] \<sigma>;
          \<sigma> = printf ''   Before: %s has grade %.1f\<newline>''
                [VString (Name (heap \<sigma> (students ! 0))), VFloat (Grade (heap \<sigma> (students ! 0)))] \<sigma>
      in
        and_then (updateGradeInPlace (Some (students ! 0)) (Num 95) \<sigma>) (\<lambda>\<sigma>.
        let \<sigma> = printf ''   After: %s has grade %.1f\<newline>''
                  [VString (Name (heap \<sigma> (students ! 0))), VFloat (Grade (heap \<sigma> (students ! 0)))] \<sigma>;
            \<sigma> = println [VString ''\<newline>3. For LARGE structs - use POINTERS (efficiency):''] \<sigma>
        in
        and_then (calculateGPAPointer (Some (students ! 0)) (Some (students ! 1))
                    (Some (students ! 2)) \<sigma>) (\<lambda>(gpa2, \<sigma>).
        Inr (printf ''   GPA (by pointer): %.2f\<newline>'' [VFloat gpa2] \<sigma>))))"

text \<open>The bullet of the summary lines, U+2022, is three bytes in UTF-8.\<close>

definition bullet :: string where
  "bullet = [CHR 0xE2, CHR 0x80, CHR 0xA2]"

definition runValueVsPointerDemo :: "state \<Rightarrow> (panic + state) option" where
  "runValueVsPointerDemo \<sigma> =
     (let \<sigma> = println [VString ''Value vs Pointer Demonstration''] \<sigma>;
          \<sigma> = println [VString ''==============================''] \<sigma>;
          \<sigma> = demonstrateValueBehavior \<sigma>
      in
        then_do (Some (demonstratePointerBehavior \<sigma>)) (\<lambda>\<sigma>.
        then_do (demonstrateSliceBehavior \<sigma>) (\<lambda>\<sigma>.
        then_do (Some (demonstrateWhenToUseEach \<sigma>)) (\<lambda>\<sigma>.
        let \<sigma> = println [VString ''\<newline>=== SUMMARY ===''] \<sigma>;
            \<sigma> = println [VString ''VALUES (copies):''] \<sigma>;
            \<sigma> = println [VString (''  '' @ bullet @ '' Safe - can't accidentally modify original'')] \<sigma>;
            \<sigma> = println [VString (''  '' @ bullet @ '' Good for small structs and read-only operations'')] \<sigma>;
            \<sigma> = println [VString (''  '' @ bullet @ '' Each function gets its own copy to work with'')] \<sigma>;
            \<sigma> = println [VString ''\<newline>POINTERS (shared access):''] \<sigma>;
            \<sigma> = println [VString (''  '' @ bullet @ '' Efficient - no copying'')] \<sigma>;
            \<sigma> = println [VString (''  '' @ bullet @ '' Required when you want to modify the original'')] \<sigma>;
            \<sigma> = println [VString (''  '' @ bullet @ '' Multiple pointers can refer to same object'')] \<sigma>;
            \<sigma> = println [VString (''  '' @ bullet @ '' Always check for nil!'')] \<sigma>;
            \<sigma> = println [VString ''\<newline>SLICES & MAPS:''] \<sigma>;
            \<sigma> = println [VString (''  '' @ bullet @ '' Reference types - contain pointers internally'')] \<sigma>;
            \<sigma> = println [VString (''  '' @ bullet @ '' Modifications affect the underlying data'')] \<sigma>;
            \<sigma> = println [VString (''  '' @ bullet @ '' Be aware of this behavior!'')] \<sigma>
        in Some (Inr \<sigma>)))))"


section \<open>types.go\<close>

text \<open>
  The counter \<open>count\<close> is a Go \<^verbatim>\<open>int\<close>; it never exceeds the length of a slice,
  which fits an \<^verbatim>\<open>int\<close>, and is an \<open>int\<close> here.
\<close>

partial_function (option) calculateAverageStack_loop ::
  "Student list \<Rightarrow> nat \<Rightarrow> float64 \<Rightarrow> int \<Rightarrow> (float64 \<times> int) option" where
  "calculateAverageStack_loop students i total' count =
     (if i < length students
      then let student = students ! i
           in calculateAverageStack_loop students (i + 1) (fadd total' (Grade student)) (count + 1)
      else Some (total', count))"

definition calculateAverageStack :: "Student list \<Rightarrow> float64 option" where
  "calculateAverageStack students =
     (case calculateAverageStack_loop students 0 (Num 0) 0 of
        None \<Rightarrow> None
      | Some (total', count) \<Rightarrow>
          Some (if count = 0 then Num 0 else fdiv total' (float64_of_int count)))"

definition createStudentByValue :: "64 word \<Rightarrow> string \<Rightarrow> float64 \<Rightarrow> Student" where
  "createStudentByValue id' name grade =
     \<lparr>ID = id', Name = name, Grade = grade, Age = 18 + rem64 id' 10\<rparr>"

text \<open>The first loop of calculateAverageHeap and calculateAverageOptimized.\<close>

partial_function (option) collect_grades_loop ::
  "Student list \<Rightarrow> nat \<Rightarrow> float64 list \<Rightarrow> float64 list option" where
  "collect_grades_loop students i grades =
     (if i < length students
      then let student = students ! i
           in collect_grades_loop students (i + 1) (grades @ [Grade student])
      else Some grades)"

text \<open>Their second loop.\<close>

partial_function (option) sum_grades_loop ::
  "float64 list \<Rightarrow> nat \<Rightarrow> float64 \<Rightarrow> float64 option" where
  "sum_grades_loop grades i total' =
     (if i < length grades
      then let grade = grades ! i
           in sum_grades_loop grades (i + 1) (fadd total' grade)
      else Some total')"

definition calculateAverageHeap :: "Student list \<Rightarrow> float64 option" where
  "calculateAverageHeap students =
     (case collect_grades_loop students 0 [] of
        None \<Rightarrow> None
      | Some grades \<Rightarrow>
          (case sum_grades_loop grades 0 (Num 0) of
             None \<Rightarrow> None
           | Some total' \<Rightarrow> Some (fdiv total' (float64_of_int (int (length grades))))))"

definition createStudentByPointer ::
  "64 word \<Rightarrow> string \<Rightarrow> float64 \<Rightarrow> state \<Rightarrow> Student_ptr \<times> state" where
  "createStudentByPointer id' name grade \<sigma> =
     (let (student, \<sigma>) =
            new_Student \<lparr>ID = id', Name = name, Grade = grade, Age = 18 + rem64 id' 10\<rparr> \<sigma>
      in (Some student, \<sigma>))"

text \<open>
  \<^verbatim>\<open>make([]float64, 0, len(students))\<close> is an empty slice; its capacity changes where
  append stores the elements, not which elements the slice has.
\<close>

definition calculateAverageOptimized :: "Student list \<Rightarrow> float64 option" where
  "calculateAverageOptimized students =
     (case collect_grades_loop students 0 [] of
        None \<Rightarrow> None
      | Some grades \<Rightarrow>
          (case sum_grades_loop grades 0 (Num 0) of
             None \<Rightarrow> None
           | Some total' \<Rightarrow> Some (fdiv total' (float64_of_int (int (length grades))))))"

text \<open>
  \<^verbatim>\<open>fmt.Sprintf("Student%d", i)\<close> writes the index in decimal.
\<close>

function decimal :: "nat \<Rightarrow> string" where
  "decimal n =
     (if n < 10 then [char_of (48 + n)]
      else decimal (n div 10) @ [char_of (48 + n mod 10)])"
  by pat_completeness auto
termination
  by (relation "measure id") auto

declare decimal.simps [simp del]

text \<open>
  What runPerformanceTest reads from the clock and from the allocator's statistics is not
  determined by the program: the three elapsed times (\<^verbatim>\<open>time.Duration\<close>, an int64 of
  nanoseconds) and the three differences of \<^verbatim>\<open>TotalAlloc\<close> (uint64) are given.
  \<^verbatim>\<open>runtime.GC()\<close> and \<^verbatim>\<open>runtime.ReadMemStats\<close> change nothing else of the state.
\<close>

record measurements =
  stackTime :: "64 word"
  stackAllocs :: "64 word"
  heapTime :: "64 word"
  heapAllocs :: "64 word"
  optimizedTime :: "64 word"
  optimizedAllocs :: "64 word"

definition iterations :: nat where
  "iterations = 50000"

text \<open>The loop that fills the test data.\<close>

partial_function (option) runPerformanceTest_fill ::
  "Student list \<Rightarrow> nat \<Rightarrow> Student list option" where
  "runPerformanceTest_fill students i =
     (if i < length students
      then runPerformanceTest_fill
             (students[i := \<lparr>ID = of_nat i,
                              Name = ''Student'' @ decimal i,
                              Grade = fadd (Num 60) (float64_of_int (int (i mod 40))),
                              Age = 18 + of_nat (i mod 10)\<rparr>])
             (i + 1)
      else Some students)"

text \<open>
  The three timed loops: \<^verbatim>\<open>for i := 0; i < iterations; i++ { _ = f(students) }\<close> with
  \<open>f\<close> one of the three average functions.
\<close>

partial_function (option) runPerformanceTest_loop ::
  "(Student list \<Rightarrow> float64 option) \<Rightarrow> Student list \<Rightarrow> nat \<Rightarrow> unit option" where
  "runPerformanceTest_loop f students i =
     (if i < iterations
      then (case f students of
              None \<Rightarrow> None
            | Some average \<Rightarrow> runPerformanceTest_loop f students (i + 1))
      else Some ())"

definition runPerformanceTest :: "measurements \<Rightarrow> state \<Rightarrow> state option" where
  "runPerformanceTest m \<sigma> =
     (case runPerformanceTest_fill (replicate 100 \<lparr>ID = 0, Name = [], Grade = Num 0, Age = 0\<rparr>) 0 of
        None \<Rightarrow> None
      | Some students \<Rightarrow>
     (let \<sigma> = printf ''Testing with %d students, %d iterations each\<newline>''
                 [VInt (of_nat (length students)), VInt (of_nat iterations)] \<sigma>;
          \<sigma> = println [VString ''==================================================''] \<sigma>
      in
     (case runPerformanceTest_loop calculateAverageStack students 0 of
        None \<Rightarrow> None
      | Some u \<Rightarrow>
     (case runPerformanceTest_loop calculateAverageHeap students 0 of
        None \<Rightarrow> None
      | Some u \<Rightarrow>
     (case runPerformanceTest_loop calculateAverageOptimized students 0 of
        None \<Rightarrow> None
      | Some u \<Rightarrow>
     (let \<sigma> = printf ''Stack approach:     %8v  %10d bytes\<newline>''
                 [VDuration (stackTime m), VUint64 (stackAllocs m)] \<sigma>;
          \<sigma> = printf ''Heap approach:      %8v  %10d bytes\<newline>''
                 [VDuration (heapTime m), VUint64 (heapAllocs m)] \<sigma>;
          \<sigma> = printf ''Optimized approach: %8v  %10d bytes\<newline>''
                 [VDuration (optimizedTime m), VUint64 (optimizedAllocs m)] \<sigma>
      in
        Some
          (if 0 < sint (stackTime m) \<and> 0 < sint (heapTime m)
           then
             let \<sigma> = printf ''\<newline>Performance improvements:\<newline>'' [] \<sigma>;
                 \<sigma> = printf (bullet @ '' Stack is %.1fx faster than heap\<newline>'')
                       [VFloat (fdiv (float64_of_int (sint (heapTime m)))
                                  (float64_of_int (sint (stackTime m))))] \<sigma>
             in if 0 < sint (optimizedTime m)
                then printf (bullet @ '' Optimized is %.1fx faster than heap\<newline>'')
                       [VFloat (fdiv (float64_of_int (sint (heapTime m)))
                                  (float64_of_int (sint (optimizedTime m))))] \<sigma>
                else \<sigma>
           else \<sigma>)))))))"

definition runStackVsHeapDemo :: "measurements \<Rightarrow> state \<Rightarrow> state option" where
  "runStackVsHeapDemo m \<sigma> =
     (let \<sigma> = println [VString ''Stack vs Heap Performance Comparison''] \<sigma>;
          \<sigma> = println [VString ''====================================''] \<sigma>;
          \<sigma> = println [VString ''\<newline>--- Creating Students ---''] \<sigma>;
          stackStudent = createStudentByValue 1 ''Alice'' (Num 85);
          \<sigma> = printf ''Stack student: %+v\<newline>'' [VStudent stackStudent] \<sigma>;
          (heapStudent, \<sigma>) = createStudentByPointer 2 ''Bob'' (Num 92) \<sigma>;
          \<sigma> = printf ''Heap student: %+v\<newline>'' [VPointer heapStudent] \<sigma>;
          \<sigma> = println [VString ''\<newline>--- Performance Test ---''] \<sigma>
      in
        case runPerformanceTest m \<sigma> of
          None \<Rightarrow> None
        | Some \<sigma> \<Rightarrow>
            (let \<sigma> = println [VString ''\<newline>=== Key Takeaways ===''] \<sigma>;
                 \<sigma> = println [VString (bullet @ '' Stack allocation is much faster than heap'')] \<sigma>;
                 \<sigma> = println [VString (bullet @ '' Avoid creating unnecessary intermediate slices'')] \<sigma>;
                 \<sigma> = println [VString (bullet @ '' Pre-allocate when you know the size'')] \<sigma>;
                 \<sigma> = println [VString (bullet @ '' Return values when possible, pointers when necessary'')] \<sigma>
             in Some \<sigma>))"


section \<open>escape-analysis.go\<close>

definition staysOnStack1 :: "state \<Rightarrow> state" where
  "staysOnStack1 \<sigma> =
     (let student = \<lparr>ID = 1, Name = ''Alice'', Grade = Num (171 / 2), Age = 20\<rparr>
      in printf ''Student %s has grade %.1f\<newline>''
           [VString (Name student), VFloat (Grade student)] \<sigma>)"

definition staysOnStack2 :: Student where
  "staysOnStack2 =
     (let student = \<lparr>ID = 2, Name = ''Bob'', Grade = Num 92, Age = 19\<rparr>
      in student)"

definition processStudent :: "Student \<Rightarrow> state \<Rightarrow> state" where
  "processStudent s \<sigma> =
     (let s = s\<lparr>Grade := fadd (Grade s) (Num 10)\<rparr>
      in printf ''Inside function (copy): %+v\<newline>'' [VStudent s] \<sigma>)"

definition staysOnStack3 :: "state \<Rightarrow> state" where
  "staysOnStack3 \<sigma> =
     (let student = \<lparr>ID = 3, Name = ''Charlie'', Grade = Num 78, Age = 21\<rparr>;
          \<sigma> = processStudent student \<sigma>
      in printf ''Original student unchanged: %+v\<newline>'' [VStudent student] \<sigma>)"

definition escapesToHeap1 :: "state \<Rightarrow> Student_ptr \<times> state" where
  "escapesToHeap1 \<sigma> =
     (let (student, \<sigma>) = new_Student \<lparr>ID = 4, Name = ''Diana'', Grade = Num 95, Age = 20\<rparr> \<sigma>
      in (Some student, \<sigma>))"

definition escapesToHeap2 :: "state \<Rightarrow> state" where
  "escapesToHeap2 \<sigma> =
     (let student = \<lparr>ID = 5, Name = ''Eve'', Grade = Num 88, Age = 22\<rparr>
      in println [VString ''Student via fmt.Println:'', VStudent student] \<sigma>)"

text \<open>The array \<^verbatim>\<open>[10000]int{}\<close> is a list of 10000 zeros; the index 0 is a constant.\<close>

definition escapesToHeap3 :: "state \<Rightarrow> state" where
  "escapesToHeap3 \<sigma> =
     (let largeData = replicate 10000 (0 :: 64 word);
          largeData = largeData[0 := 42]
      in printf ''Large data first element: %d\<newline>'' [VInt (largeData ! 0)] \<sigma>)"

definition escapesToHeap4 :: "state \<Rightarrow> state" where
  "escapesToHeap4 \<sigma> =
     (let (student, \<sigma>) = new_Student \<lparr>ID = 6, Name = ''Frank'', Grade = Num 82, Age = 23\<rparr> \<sigma>
      in \<sigma>\<lparr>globalStudent := Some student\<rparr>)"

partial_function (option) calculateAverageStacks_loop ::
  "Student list \<Rightarrow> nat \<Rightarrow> float64 \<Rightarrow> float64 option" where
  "calculateAverageStacks_loop students i total' =
     (if i < length students
      then let student = students ! i
           in calculateAverageStacks_loop students (i + 1) (fadd total' (Grade student))
      else Some total')"

definition calculateAverageStacks :: "Student list \<Rightarrow> float64 option" where
  "calculateAverageStacks students =
     (case calculateAverageStacks_loop students 0 (Num 0) of
        None \<Rightarrow> None
      | Some total' \<Rightarrow> Some (fdiv total' (float64_of_int (int (length students)))))"

definition calculateAverageHeaps :: "Student list \<Rightarrow> float64 option" where
  "calculateAverageHeaps students =
     (case collect_grades_loop students 0 [] of
        None \<Rightarrow> None
      | Some grades \<Rightarrow>
          (case sum_grades_loop grades 0 (Num 0) of
             None \<Rightarrow> None
           | Some total' \<Rightarrow> Some (fdiv total' (float64_of_int (int (length grades))))))"

definition main :: "state \<Rightarrow> (panic + state) option" where
  "main \<sigma> =
     (let \<sigma> = println [VString ''Go Escape Analysis Examples''] \<sigma>;
          \<sigma> = println [VString ''===========================''] \<sigma>;
          \<sigma> = println [VString ''\<newline>--- Variables That STAY ON STACK ---''] \<sigma>;
          \<sigma> = staysOnStack1 \<sigma>;
          stackStudent = staysOnStack2;
          \<sigma> = printf ''Returned by value: %s (Grade: %.1f)\<newline>''
                [VString (Name stackStudent), VFloat (Grade stackStudent)] \<sigma>;
          \<sigma> = staysOnStack3 \<sigma>;
          \<sigma> = println [VString ''\<newline>--- Variables That ESCAPE TO HEAP ---''] \<sigma>;
          (heapStudent, \<sigma>) = escapesToHeap1 \<sigma>
      in
        then_do (Some (load heapStudent \<sigma>)) (\<lambda>s.
        let \<sigma> = printf ''Returned by pointer: %s (Grade: %.1f)\<newline>''
                  [VString (Name s), VFloat (Grade s)] \<sigma>;
            \<sigma> = escapesToHeap2 \<sigma>;
            \<sigma> = escapesToHeap3 \<sigma>;
            \<sigma> = escapesToHeap4 \<sigma>;
            \<sigma> = printf ''Global student: %+v\<newline>'' [VPointer (globalStudent \<sigma>)] \<sigma>;
            \<sigma> = println [VString ''\<newline>--- Performance Impact ---''] \<sigma>;
            testStudents =
              [\<lparr>ID = 1, Name = ''Test1'', Grade = Num 85, Age = 20\<rparr>,
               \<lparr>ID = 2, Name = ''Test2'', Grade = Num 90, Age = 21\<rparr>,
               \<lparr>ID = 3, Name = ''Test3'', Grade = Num 78, Age = 19\<rparr>,
               \<lparr>ID = 4, Name = ''Test4'', Grade = Num 88, Age = 22\<rparr>,
               \<lparr>ID = 5, Name = ''Test5'', Grade = Num 92, Age = 20\<rparr>]
        in
        then_do (map_option Inr (calculateAverageStacks testStudents)) (\<lambda>stackAvg.
        then_do (map_option Inr (calculateAverageHeaps testStudents)) (\<lambda>heapAvg.
        let \<sigma> = printf ''Stack calculation: %.2f (no extra allocations)\<newline>'' [VFloat stackAvg] \<sigma>;
            \<sigma> = printf ''Heap calculation: %.2f (creates intermediate slice)\<newline>''
                  [VFloat heapAvg] \<sigma>;
            \<sigma> = println [VString ''\<newline>=== To See Escape Analysis ===''] \<sigma>;
            \<sigma> = println [VString ''Run: go build -gcflags='-m' examples/escape_analysis.go''] \<sigma>;
            \<sigma> = println [VString ''\<newline>Look for output like:''] \<sigma>;
            \<sigma> = println [VString (''  'moved to heap: student'' @ [CHR 0x27])] \<sigma>;
            \<sigma> = println [VString (''  '&student escapes to heap'' @ [CHR 0x27])] \<sigma>;
            \<sigma> = println [VString ''\<newline>This tells you which variables Go puts on the heap!''] \<sigma>
        in Some (Inr \<sigma>)))))"


section \<open>The initial state and the mean of the grades\<close>

text \<open>
  At program start nothing is allocated or printed and \<open>globalStudent\<close> has the zero
  value of a pointer, nil. A record not yet written has the zero value of Student.
\<close>

definition zero_Student :: Student where
  "zero_Student = \<lparr>ID = 0, Name = [], Grade = Num 0, Age = 0\<rparr>"

definition init_state :: state where
  "init_state = \<lparr>heap = (\<lambda>a. zero_Student), next_addr = 0, globalStudent = None, stdout = []\<rparr>"

text \<open>
  What the loops compute: the running float64 sum of the grades, added from 0 in the
  order of the list with every addition rounded, and that sum divided in float64 by the
  number of students.
\<close>

definition float64_sum_of_grades :: "Student list \<Rightarrow> float64" where
  "float64_sum_of_grades students = foldl fadd (Num 0) (map Grade students)"

definition float64_average :: "Student list \<Rightarrow> float64" where
  "float64_average students =
     fdiv (float64_sum_of_grades students) (float64_of_int (int (length students)))"

text \<open>
  The arithmetic mean of rational numbers: their exact sum divided by their number. A
  rational is a float64 value when rounding leaves it as it is.
\<close>

definition exact_mean :: "rat list \<Rightarrow> rat" where
  "exact_mean qs = sum_list qs / of_nat (length qs)"

definition representable :: "rat \<Rightarrow> bool" where
  "representable q = (round64 q = Num q)"


section \<open>Basic facts\<close>

lemma and_then_Inr [simp]: "and_then (Inr x) f = f x"
  by (simp add: and_then_def)

lemma and_then_Inl [simp]: "and_then (Inl e) f = Inl e"
  by (simp add: and_then_def)

lemma load_Some [simp]: "load (Some a) \<sigma> = Inr (heap \<sigma> a)"
  by (simp add: load_def)

lemma store_Some [simp]:
  "store (Some a) upd \<sigma> = Inr (\<sigma>\<lparr>heap := (heap \<sigma>)(a := upd (heap \<sigma> a))\<rparr>)"
  by (simp add: store_def)

lemma printf_frame [simp]:
  "heap (printf f args \<sigma>) = heap \<sigma>"
  "next_addr (printf f args \<sigma>) = next_addr \<sigma>"
  "globalStudent (printf f args \<sigma>) = globalStudent \<sigma>"
  by (simp_all add: printf_def)

lemma println_frame [simp]:
  "heap (println args \<sigma>) = heap \<sigma>"
  "next_addr (println args \<sigma>) = next_addr \<sigma>"
  "globalStudent (println args \<sigma>) = globalStudent \<sigma>"
  by (simp_all add: println_def)

lemma then_do_simps [simp]:
  "then_do None f = None"
  "then_do (Some (Inl e)) f = Some (Inl e)"
  "then_do (Some (Inr x)) f = f x"
  by (simp_all add: then_do_def)

lemma float64_of_int_0: "float64_of_int 0 = Num 0"
  by (simp add: float64_of_int_def round64_def)

lemma smod_10_bounds: "- 10 < (k::int) smod 10 \<and> k smod 10 < 10"
proof -
  have m: "0 \<le> \<bar>k\<bar> mod 10" "\<bar>k\<bar> mod 10 < 10"
    by simp_all
  show ?thesis
  proof (cases k "0::int" rule: linorder_cases)
    case less
    then show ?thesis using m by (simp add: signed_modulo_int_def)
  next
    case equal
    then show ?thesis by (simp add: signed_modulo_int_def)
  next
    case greater
    then show ?thesis using m by (simp add: signed_modulo_int_def)
  qed
qed

lemma sint_rem64_10: "sint (rem64 x 10) = sint x smod 10"
proof -
  have "sint (rem64 x 10) = signed_take_bit 63 (sint x smod 10)"
    by (simp add: rem64_def sint_sbintrunc')
  also have "\<dots> = sint x smod 10"
    using smod_10_bounds [of "sint x"] by (intro signed_take_bit_int_eq_self) simp_all
  finally show ?thesis .
qed

lemma sint_Age_createStudentByValue:
  "sint (Age (createStudentByValue i n g)) = 18 + sint i smod 10"
proof -
  have "sint (18 + rem64 i 10) = signed_take_bit 63 (18 + sint (rem64 i 10))"
    by (simp add: sint_word_ariths)
  also have "\<dots> = 18 + sint i smod 10"
    using smod_10_bounds [of "sint i"]
    unfolding sint_rem64_10 by (intro signed_take_bit_int_eq_self) simp_all
  finally show ?thesis
    by (simp add: createStudentByValue_def)
qed


section \<open>The loops return\<close>

text \<open>
  Each loop is unfolded once per element; the induction is on the number of elements
  still to visit.
\<close>

lemma calculateAverageStack_loop_eq:
  "calculateAverageStack_loop students i t c =
     Some (foldl fadd t (map Grade (drop i students)), c + int (length students - i))"
proof (induction "length students - i" arbitrary: i t c)
  case 0
  then show ?case
    by (subst calculateAverageStack_loop.simps) simp
next
  case (Suc n)
  then have lt: "i < length students" and n: "n = length students - (i + 1)"
    by simp_all
  have d: "drop i students = students ! i # drop (i + 1) students"
    using lt by (simp add: Cons_nth_drop_Suc)
  show ?case
    using lt Suc.hyps(1) [OF n] Suc.hyps(2)
    by (subst calculateAverageStack_loop.simps) (simp add: d)
qed

lemma collect_grades_loop_eq:
  "collect_grades_loop students i grades = Some (grades @ map Grade (drop i students))"
proof (induction "length students - i" arbitrary: i grades)
  case 0
  then show ?case
    by (subst collect_grades_loop.simps) simp
next
  case (Suc n)
  then have lt: "i < length students" and n: "n = length students - (i + 1)"
    by simp_all
  have d: "drop i students = students ! i # drop (i + 1) students"
    using lt by (simp add: Cons_nth_drop_Suc)
  show ?case
    using lt Suc.hyps(1) [OF n]
    by (subst collect_grades_loop.simps) (simp add: d)
qed

lemma sum_grades_loop_eq:
  "sum_grades_loop grades i t = Some (foldl fadd t (drop i grades))"
proof (induction "length grades - i" arbitrary: i t)
  case 0
  then show ?case
    by (subst sum_grades_loop.simps) simp
next
  case (Suc n)
  then have lt: "i < length grades" and n: "n = length grades - (i + 1)"
    by simp_all
  have d: "drop i grades = grades ! i # drop (i + 1) grades"
    using lt by (simp add: Cons_nth_drop_Suc)
  show ?case
    using lt Suc.hyps(1) [OF n]
    by (subst sum_grades_loop.simps) (simp add: d)
qed

lemma modifyGradesSlice_loop_eq:
  "modifyGradesSlice_loop grades i =
     Some (take i grades @ map (\<lambda>g. fadd g (Num 5)) (drop i grades))"
proof (induction "length grades - i" arbitrary: i grades)
  case 0
  then show ?case
    by (subst modifyGradesSlice_loop.simps) simp
next
  case (Suc n)
  let ?g = "grades[i := fadd (grades ! i) (Num 5)]"
  from Suc have lt: "i < length grades" and n: "n = length ?g - (i + 1)"
    by simp_all
  have d: "drop i grades = grades ! i # drop (i + 1) grades"
    using lt by (simp add: Cons_nth_drop_Suc)
  have t: "take (Suc i) ?g = take i grades @ [fadd (grades ! i) (Num 5)]"
    using lt by (simp add: take_Suc_conv_app_nth)
  show ?case
    using lt Suc.hyps(1) [OF n]
    by (subst modifyGradesSlice_loop.simps) (simp add: d t)
qed

lemma modifyGradesSlice_eq:
  "modifyGradesSlice grades \<sigma> =
     Some (map (\<lambda>g. fadd g (Num 5)) grades,
           printf ''Inside modifyGradesSlice: %v\<newline>''
             [VFloats (map (\<lambda>g. fadd g (Num 5)) grades)] \<sigma>)"
  by (simp add: modifyGradesSlice_def modifyGradesSlice_loop_eq)

lemma demonstrateSliceBehavior_loop_eq:
  "demonstrateSliceBehavior_loop class i \<sigma> =
     Some (\<sigma>\<lparr>stdout := stdout \<sigma> @
             map (\<lambda>student. Printf ''  %s: %.1f\<newline>''
                               [VString (Name student), VFloat (Grade student)])
               (drop i class)\<rparr>)"
proof (induction "length class - i" arbitrary: i \<sigma>)
  case 0
  then show ?case
    by (subst demonstrateSliceBehavior_loop.simps) simp
next
  case (Suc n)
  then have lt: "i < length class" and n: "n = length class - (i + 1)"
    by simp_all
  have d: "drop i class = class ! i # drop (i + 1) class"
    using lt by (simp add: Cons_nth_drop_Suc)
  show ?case
    using lt Suc.hyps(1) [OF n]
    by (subst demonstrateSliceBehavior_loop.simps) (simp add: d printf_def Let_def)
qed

lemma runPerformanceTest_fill_returns:
  "\<exists>r. runPerformanceTest_fill students i = Some r \<and> length r = length students"
proof (induction "length students - i" arbitrary: i students)
  case 0
  then show ?case
    by (subst runPerformanceTest_fill.simps) simp
next
  case (Suc n)
  let ?s = "students[i := \<lparr>ID = of_nat i, Name = ''Student'' @ decimal i,
                Grade = fadd (Num 60) (float64_of_int (int (i mod 40))),
                Age = 18 + of_nat (i mod 10)\<rparr>]"
  from Suc have lt: "i < length students" and n: "n = length ?s - (i + 1)"
    by simp_all
  show ?case
    using lt Suc.hyps(1) [OF n]
    by (subst runPerformanceTest_fill.simps) simp
qed

lemma runPerformanceTest_loop_returns:
  assumes "\<exists>r. f students = Some r"
  shows "runPerformanceTest_loop f students i = Some ()"
proof (induction "iterations - i" arbitrary: i)
  case 0
  then show ?case
    by (subst runPerformanceTest_loop.simps) simp
next
  case (Suc n)
  then have lt: "i < iterations" and n: "n = iterations - (i + 1)"
    by simp_all
  from assms obtain r where r: "f students = Some r"
    by blast
  show ?case
    using lt Suc.hyps(1) [OF n] r
    by (subst runPerformanceTest_loop.simps) simp
qed

lemma calculateAverageStacks_loop_eq:
  "calculateAverageStacks_loop students i t = Some (foldl fadd t (map Grade (drop i students)))"
proof (induction "length students - i" arbitrary: i t)
  case 0
  then show ?case
    by (subst calculateAverageStacks_loop.simps) simp
next
  case (Suc n)
  then have lt: "i < length students" and n: "n = length students - (i + 1)"
    by simp_all
  have d: "drop i students = students ! i # drop (i + 1) students"
    using lt by (simp add: Cons_nth_drop_Suc)
  show ?case
    using lt Suc.hyps(1) [OF n]
    by (subst calculateAverageStacks_loop.simps) (simp add: d)
qed

lemma calculateAverageStacks_eq:
  "calculateAverageStacks students = Some (float64_average students)"
  by (simp add: calculateAverageStacks_def calculateAverageStacks_loop_eq
      float64_average_def float64_sum_of_grades_def)

lemma calculateAverageHeaps_eq:
  "calculateAverageHeaps students = Some (float64_average students)"
  by (simp add: calculateAverageHeaps_def collect_grades_loop_eq sum_grades_loop_eq
      float64_average_def float64_sum_of_grades_def)

lemma calculateAverageStack_eq:
  "calculateAverageStack students =
     Some (if students = [] then Num 0 else float64_average students)"
  by (simp add: calculateAverageStack_def calculateAverageStack_loop_eq
      float64_average_def float64_sum_of_grades_def)

lemma calculateAverageHeap_eq:
  "calculateAverageHeap students = Some (float64_average students)"
  by (simp add: calculateAverageHeap_def collect_grades_loop_eq sum_grades_loop_eq
      float64_average_def float64_sum_of_grades_def)

lemma calculateAverageOptimized_eq:
  "calculateAverageOptimized students = Some (float64_average students)"
  by (simp add: calculateAverageOptimized_def collect_grades_loop_eq sum_grades_loop_eq
      float64_average_def float64_sum_of_grades_def)

lemma float64_average_Nil: "float64_average [] = NaN"
  by (simp add: float64_average_def float64_sum_of_grades_def float64_of_int_0)

text \<open>
  On a slice with at least one student the three functions return the same value: they
  add the same grades in the same order and divide by the same count.
\<close>

lemma calculateAverage_nonempty_agree:
  "students \<noteq> [] \<Longrightarrow>
     calculateAverageStack students = calculateAverageHeap students
     \<and> calculateAverageHeap students = calculateAverageOptimized students"
  by (simp add: calculateAverageStack_eq calculateAverageHeap_eq calculateAverageOptimized_eq)

lemma modifyStudentPointer_Some:
  "modifyStudentPointer (Some a) \<sigma> =
     Inr (printf ''Inside modifyStudentPointer: %+v\<newline>''
            [VStudent ((heap \<sigma> a)\<lparr>Grade := Num 100, Name := ''Modified '' @ Name (heap \<sigma> a)\<rparr>)]
            (\<sigma>\<lparr>heap := (heap \<sigma>)(a := (heap \<sigma> a)\<lparr>Grade := Num 100,
                 Name := ''Modified '' @ Name (heap \<sigma> a)\<rparr>)\<rparr>))"
  by (simp add: modifyStudentPointer_def)



section \<open>What the demonstrations leave in globalStudent\<close>

text \<open>
  Each demonstration returns, without a panic, and all but main return a state whose
  \<open>globalStudent\<close> is the one they started from. main allocates one record in
  escapesToHeap1 before it calls escapesToHeap4.
\<close>

lemma demonstrateValueBehavior_frame:
  "heap (demonstrateValueBehavior \<sigma>) = heap \<sigma>
   \<and> next_addr (demonstrateValueBehavior \<sigma>) = next_addr \<sigma>
   \<and> globalStudent (demonstrateValueBehavior \<sigma>) = globalStudent \<sigma>"
  by (simp add: demonstrateValueBehavior_def modifyStudentValue_def Let_def)

lemma demonstratePointerBehavior_frame:
  "\<exists>\<sigma>'. demonstratePointerBehavior \<sigma> = Inr \<sigma>' \<and> globalStudent \<sigma>' = globalStudent \<sigma>"
  by (simp add: demonstratePointerBehavior_def new_Student_def modifyStudentPointer_Some Let_def)

lemma demonstrateSliceBehavior_frame:
  "\<exists>\<sigma>'. demonstrateSliceBehavior \<sigma> = Some (Inr \<sigma>') \<and> globalStudent \<sigma>' = globalStudent \<sigma>"
  by (simp add: demonstrateSliceBehavior_def modifyGradesSlice_eq addStudentToClass_def
      demonstrateSliceBehavior_loop_eq Let_def)

lemma demonstrateWhenToUseEach_frame:
  "\<exists>\<sigma>'. demonstrateWhenToUseEach \<sigma> = Inr \<sigma>' \<and> globalStudent \<sigma>' = globalStudent \<sigma>"
  by (simp add: demonstrateWhenToUseEach_def new_Student_def updateGradeInPlace_def
      calculateGPAPointer_def Let_def)

lemma runValueVsPointerDemo_frame:
  "\<exists>\<sigma>'. runValueVsPointerDemo \<sigma> = Some (Inr \<sigma>') \<and> globalStudent \<sigma>' = globalStudent \<sigma>"
proof -
  let ?\<sigma>0 = "demonstrateValueBehavior
              (println [VString ''=============================='']
                (println [VString ''Value vs Pointer Demonstration''] \<sigma>))"
  have g0: "globalStudent ?\<sigma>0 = globalStudent \<sigma>"
    by (simp add: demonstrateValueBehavior_frame)
  obtain \<sigma>1 where 1: "demonstratePointerBehavior ?\<sigma>0 = Inr \<sigma>1"
    and g1: "globalStudent \<sigma>1 = globalStudent ?\<sigma>0"
    using demonstratePointerBehavior_frame by blast
  obtain \<sigma>2 where 2: "demonstrateSliceBehavior \<sigma>1 = Some (Inr \<sigma>2)"
    and g2: "globalStudent \<sigma>2 = globalStudent \<sigma>1"
    using demonstrateSliceBehavior_frame by blast
  obtain \<sigma>3 where 3: "demonstrateWhenToUseEach \<sigma>2 = Inr \<sigma>3"
    and g3: "globalStudent \<sigma>3 = globalStudent \<sigma>2"
    using demonstrateWhenToUseEach_frame by blast
  show ?thesis
    using 1 2 3 g0 g1 g2 g3
    by (simp add: runValueVsPointerDemo_def Let_def)
qed

lemma runPerformanceTest_frame:
  "\<exists>\<sigma>'. runPerformanceTest m \<sigma> = Some \<sigma>' \<and> globalStudent \<sigma>' = globalStudent \<sigma>"
proof -
  obtain students where f: "runPerformanceTest_fill
      (replicate 100 \<lparr>ID = 0, Name = [], Grade = Num 0, Age = 0\<rparr>) 0 = Some students"
    using runPerformanceTest_fill_returns by blast
  have l: "runPerformanceTest_loop calculateAverageStack students 0 = Some ()"
    "runPerformanceTest_loop calculateAverageHeap students 0 = Some ()"
    "runPerformanceTest_loop calculateAverageOptimized students 0 = Some ()"
    by (rule runPerformanceTest_loop_returns,
        simp add: calculateAverageStack_eq calculateAverageHeap_eq calculateAverageOptimized_eq)+
  show ?thesis
    using f l by (simp add: runPerformanceTest_def Let_def)
qed

lemma runStackVsHeapDemo_frame:
  "\<exists>\<sigma>'. runStackVsHeapDemo m \<sigma> = Some \<sigma>' \<and> globalStudent \<sigma>' = globalStudent \<sigma>"
proof -
  let ?\<sigma>0 = "println [VString ''\<newline>--- Performance Test ---'']
     (printf ''Heap student: %+v\<newline>'' [VPointer (fst (createStudentByPointer 2 ''Bob'' (Num 92)
          (printf ''Stack student: %+v\<newline>'' [VStudent (createStudentByValue 1 ''Alice'' (Num 85))]
          (println [VString ''\<newline>--- Creating Students ---'']
          (println [VString ''===================================='']
          (println [VString ''Stack vs Heap Performance Comparison''] \<sigma>))))))]
       (snd (createStudentByPointer 2 ''Bob'' (Num 92)
          (printf ''Stack student: %+v\<newline>'' [VStudent (createStudentByValue 1 ''Alice'' (Num 85))]
          (println [VString ''\<newline>--- Creating Students ---'']
          (println [VString ''===================================='']
          (println [VString ''Stack vs Heap Performance Comparison''] \<sigma>)))))))"
  have g0: "globalStudent ?\<sigma>0 = globalStudent \<sigma>"
    by (simp add: createStudentByPointer_def new_Student_def)
  obtain \<sigma>1 where 1: "runPerformanceTest m ?\<sigma>0 = Some \<sigma>1"
    and g1: "globalStudent \<sigma>1 = globalStudent ?\<sigma>0"
    using runPerformanceTest_frame by blast
  show ?thesis
    using 1 g0 g1
    by (simp add: runStackVsHeapDemo_def Let_def split_def)
qed

lemma main_result:
  "\<exists>\<sigma>'. main \<sigma> = Some (Inr \<sigma>')
        \<and> globalStudent \<sigma>' = Some (next_addr \<sigma> + 1)
        \<and> heap \<sigma>' (next_addr \<sigma> + 1) = \<lparr>ID = 6, Name = ''Frank'', Grade = Num 82, Age = 23\<rparr>"
  by (simp add: main_def staysOnStack1_def staysOnStack2_def staysOnStack3_def processStudent_def
      escapesToHeap1_def escapesToHeap2_def escapesToHeap3_def escapesToHeap4_def new_Student_def
      calculateAverageStacks_eq calculateAverageHeaps_eq Let_def)


section \<open>Rounding at given numbers, and sums that do not round\<close>

text \<open>
  The rounding evaluated at the numbers used below: small integers and 175/2 are float64
  values, \<open>2^53 + 1\<close> is a tie and rounds to the even neighbour \<open>2^53\<close>, and 1/3
  rounds to a nearby binary fraction. Where no addition rounds, the running float64 sum
  is the exact sum.
\<close>

lemma bit_length_values:
  "bit_length 1 = 1" "bit_length 2 = 2" "bit_length 3 = 2" "bit_length 85 = 7"
  "bit_length 175 = 8" "bit_length 9007199254740993 = 54"
  by (simp_all add: bit_length.simps)

lemma quotient_of_175_2: "quotient_of (175 / 2) = (175, 2)"
proof -
  have e: "(175 / 2 :: rat) = Fract 175 2"
    by (simp add: Fract_of_int_quotient)
  have "quotient_of (Fract 175 2) = (175, 2)"
    by (simp add: quotient_of_Fract)
  then show ?thesis
    by (simp only: e)
qed

lemma quotient_of_1_3: "quotient_of (1 / 3) = (1, 3)"
proof -
  have e: "(1 / 3 :: rat) = Fract 1 3"
    by (simp add: Fract_of_int_quotient)
  have "quotient_of (Fract 1 3) = (1, 3)"
    by (simp add: quotient_of_Fract)
  then show ?thesis
    by (simp only: e)
qed

lemma floor_log2_values:
  "floor_log2 1 = 0" "floor_log2 2 = 1" "floor_log2 3 = 1" "floor_log2 85 = 6"
  "floor_log2 175 = 7" "floor_log2 (175 / 2) = 6" "floor_log2 9007199254740993 = 53"
  "floor_log2 (1 / 3) = - 2"
  by (simp_all add: floor_log2_def quotient_of_175_2 quotient_of_1_3 bit_length_values pow2_def)

lemma floor_values:
  "\<lfloor>(9007199254740993 :: rat) / 2\<rfloor> = 4503599627370496"
  "\<lfloor>(18014398509481984 :: rat) / 3\<rfloor> = 6004799503160661"
  using floor_divide_of_int_eq [of 9007199254740993 2, where ?'a = rat]
    floor_divide_of_int_eq [of 18014398509481984 3, where ?'a = rat]
  by simp_all

lemma round64_values:
  "round64 0 = Num 0" "round64 1 = Num 1" "round64 2 = Num 2" "round64 3 = Num 3"
  "round64 85 = Num 85" "round64 175 = Num 175" "round64 (175 / 2) = Num (175 / 2)"
  "round64 9007199254740993 = Num 9007199254740992"
  "round64 (1 / 3) = Num (6004799503160661 / 18014398509481984)"
  by (simp_all add: round64_def floor_log2_values floor_values pow2_def round_half_even_def
      Let_def)

lemma foldl_fadd_exact:
  "(\<forall>k\<le>length qs. representable (a + sum_list (take k qs))) \<Longrightarrow>
     foldl fadd (Num a) (map Num qs) = Num (a + sum_list qs)"
proof (induction qs arbitrary: a)
  case Nil
  then show ?case by simp
next
  case (Cons q qs)
  from Cons.prems have "representable (a + sum_list (take 1 (q # qs)))"
    by (metis One_nat_def Suc_leI length_Cons zero_less_Suc)
  then have step: "round64 (a + q) = Num (a + q)"
    by (simp add: representable_def)
  have "\<forall>k\<le>length qs. representable (a + q + sum_list (take k qs))"
  proof (intro allI impI)
    fix k assume "k \<le> length qs"
    then have "Suc k \<le> length (q # qs)" by simp
    with Cons.prems have "representable (a + sum_list (take (Suc k) (q # qs)))" by blast
    then show "representable (a + q + sum_list (take k qs))" by (simp add: add.assoc)
  qed
  from Cons.IH [OF this] show ?case
    by (simp add: step add.assoc)
qed

lemma fdiv_exact:
  "0 < n \<Longrightarrow> representable (s / n) \<Longrightarrow> fdiv (Num s) (Num n) = Num (s / n)"
  by (simp add: representable_def signed_zero_def)


section \<open>What the two basic demonstrations print\<close>

text \<open>
  Run from the initial state, demonstrateValueBehavior prints the original unchanged after
  the call by value, and demonstratePointerBehavior prints the record changed after the
  call by pointer, and the same record through \<open>original\<close>, \<open>ptr1\<close> and \<open>ptr2\<close> after
  the assignment through \<open>ptr1\<close>.
\<close>

lemma demonstratePointerBehavior_output:
  "map_sum id stdout (demonstratePointerBehavior init_state) = Inr
     [Println [VString ''\<newline>=== POINTER BEHAVIOR ===''],
      Printf ''Original student: %+v\<newline>''
        [VStudent \<lparr>ID = 3, Name = ''Bob'', Grade = Num 78, Age = 21\<rparr>],
      Printf ''Inside modifyStudentPointer: %+v\<newline>''
        [VStudent \<lparr>ID = 3, Name = ''Modified Bob'', Grade = Num 100, Age = 21\<rparr>],
      Printf ''After modifyStudentPointer: %+v\<newline>''
        [VStudent \<lparr>ID = 3, Name = ''Modified Bob'', Grade = Num 100, Age = 21\<rparr>],
      Printf ''Pointer 1 points to: %+v\<newline>''
        [VStudent \<lparr>ID = 3, Name = ''Modified Bob'', Grade = Num 100, Age = 21\<rparr>],
      Printf ''Pointer 2 points to: %+v\<newline>''
        [VStudent \<lparr>ID = 3, Name = ''Modified Bob'', Grade = Num 100, Age = 21\<rparr>],
      Printf ''After changing via ptr1:\<newline>'' [],
      Printf ''  original: %+v\<newline>''
        [VStudent \<lparr>ID = 3, Name = ''Modified Bob'', Grade = Num 95, Age = 21\<rparr>],
      Printf ''  ptr1: %+v\<newline>''
        [VStudent \<lparr>ID = 3, Name = ''Modified Bob'', Grade = Num 95, Age = 21\<rparr>],
      Printf ''  ptr2: %+v\<newline>''
        [VStudent \<lparr>ID = 3, Name = ''Modified Bob'', Grade = Num 95, Age = 21\<rparr>]]"
  by (simp add: demonstratePointerBehavior_def new_Student_def modifyStudentPointer_Some
      init_state_def printf_def println_def Let_def)

lemma demonstrateValueBehavior_output:
  "stdout (demonstrateValueBehavior init_state) =
     [Println [VString ''=== VALUE BEHAVIOR ===''],
      Printf ''Original student: %+v\<newline>''
        [VStudent \<lparr>ID = 1, Name = ''Alice'', Grade = Num 85, Age = 20\<rparr>],
      Printf ''Inside modifyStudentValue: %+v\<newline>''
        [VStudent \<lparr>ID = 1, Name = ''Modified Alice'', Grade = Num 100, Age = 20\<rparr>],
      Printf ''After modifyStudentValue: %+v\<newline>''
        [VStudent \<lparr>ID = 1, Name = ''Alice'', Grade = Num 85, Age = 20\<rparr>],
      Printf ''Created copy: %+v\<newline>''
        [VStudent \<lparr>ID = 2, Name = ''Alice Clone'', Grade = Num 85, Age = 20\<rparr>],
      Printf ''Original still: %+v\<newline>''
        [VStudent \<lparr>ID = 1, Name = ''Alice'', Grade = Num 85, Age = 20\<rparr>]]"
  by (simp add: demonstrateValueBehavior_def modifyStudentValue_def createStudentCopy_def
      init_state_def printf_def println_def Let_def)


section \<open>The claims\<close>

text \<open>
  C1. A Student passed by value is copied into the callee. modifyStudentValue and
  processStudent change their own copy and print it: the changed record shows in the
  output only. After the call every record of the store, so every field (ID, Name, Grade,
  Age) of the caller's original wherever it is kept, is what it was, and so is
  globalStudent. createStudentCopy has no access to the store at all: it returns a new
  record that takes Grade and Age from the template and the new Name and ID from the
  arguments.
\<close>

theorem value_parameter_is_a_copy:
  "heap (modifyStudentValue s \<sigma>) = heap \<sigma>
   \<and> globalStudent (modifyStudentValue s \<sigma>) = globalStudent \<sigma>
   \<and> stdout (modifyStudentValue s \<sigma>) = stdout \<sigma> @
         [Printf ''Inside modifyStudentValue: %+v\<newline>''
            [VStudent (s\<lparr>Grade := Num 100, Name := ''Modified '' @ Name s\<rparr>)]]
   \<and> heap (processStudent s \<sigma>) = heap \<sigma>
   \<and> globalStudent (processStudent s \<sigma>) = globalStudent \<sigma>
   \<and> stdout (processStudent s \<sigma>) = stdout \<sigma> @
         [Printf ''Inside function (copy): %+v\<newline>''
            [VStudent (s\<lparr>Grade := fadd (Grade s) (Num 10)\<rparr>)]]
   \<and> createStudentCopy s newName newID = s\<lparr>Name := newName, ID := newID\<rparr>"
  by (simp add: modifyStudentValue_def processStudent_def createStudentCopy_def printf_def)

theorem value_parameter_is_a_copy_witness:
  "heap (modifyStudentValue (heap init_state 0) init_state) 0 = zero_Student
   \<and> heap (processStudent (heap init_state 0) init_state) 0 = zero_Student
   \<and> Grade (createStudentCopy zero_Student ''Alice Clone'' 2) = Num 0"
  using value_parameter_is_a_copy [of "heap init_state 0" init_state "''Alice Clone''" 2]
  by (simp add: init_state_def zero_Student_def)

text \<open>
  C2. For a non-nil pointer \<open>p\<close>, modifyStudentPointer returns without a panic, and the
  record \<open>p\<close> points to then has Grade 100.0 and the Name "Modified " followed by the
  old name. A pointer \<open>q\<close> that aliases \<open>p\<close> reads the same updated record.
\<close>

theorem modifyStudentPointer_through_alias:
  assumes "p = Some a" and "q = p"
  shows "\<exists>\<sigma>'. modifyStudentPointer p \<sigma> = Inr \<sigma>'
           \<and> load p \<sigma>' = Inr ((heap \<sigma> a)\<lparr>Grade := Num 100,
                                   Name := ''Modified '' @ Name (heap \<sigma> a)\<rparr>)
           \<and> load q \<sigma>' = load p \<sigma>'"
  using assms by (simp add: modifyStudentPointer_Some printf_def)

theorem modifyStudentPointer_through_alias_witness:
  "\<exists>\<sigma>'. modifyStudentPointer (Some 0) init_state = Inr \<sigma>'
        \<and> load (Some 0) \<sigma>' = Inr \<lparr>ID = 0, Name = ''Modified '', Grade = Num 100, Age = 0\<rparr>"
  using modifyStudentPointer_through_alias [of "Some 0" 0 "Some 0" init_state]
  by (simp add: init_state_def zero_Student_def)

text \<open>
  C3. The three average functions do not agree on every slice. On the empty slice
  calculateAverageStack returns 0 through its \<^verbatim>\<open>count == 0\<close> guard, while
  calculateAverageHeap and calculateAverageOptimized have no such guard and divide 0.0 by
  float64(0), which is NaN and not 0.
\<close>

theorem calculateAverage_empty_slice:
  "calculateAverageStack [] = Some (Num 0)
   \<and> calculateAverageHeap [] = Some NaN
   \<and> calculateAverageOptimized [] = Some NaN
   \<and> calculateAverageStack [] \<noteq> calculateAverageHeap []
   \<and> calculateAverageStack [] \<noteq> calculateAverageOptimized []"
  by (simp add: calculateAverageStack_eq calculateAverageHeap_eq calculateAverageOptimized_eq
      float64_average_Nil)

text \<open>
  C4. With a nil pointer, modifyStudentPointer and updateGradeInPlace return at once: no
  panic, and the whole state (every record, globalStudent, the output) is what it was.
  calculateGPAPointer with any of its three pointers nil returns 0.0 before it reads
  through any of them, without a panic and without a change of state.
\<close>

theorem nil_guards_return_early:
  "modifyStudentPointer None \<sigma> = Inr \<sigma>
   \<and> updateGradeInPlace None newGrade \<sigma> = Inr \<sigma>
   \<and> (student1 = None \<or> student2 = None \<or> student3 = None \<longrightarrow>
        calculateGPAPointer student1 student2 student3 \<sigma> = Inr (Num 0, \<sigma>))"
  by (simp add: modifyStudentPointer_def updateGradeInPlace_def calculateGPAPointer_def)

theorem nil_guards_return_early_witness:
  "calculateGPAPointer (Some 0) None (Some 1) init_state = Inr (Num 0, init_state)"
  using nil_guards_return_early [of init_state "Num 0" "Some 0" None "Some 1"]
  by simp

text \<open>
  C5. calculateAverageStack returns 0 on the empty slice. On any other slice it returns
  the running float64 sum of the grades, added from 0 in the order of the slice, divided
  in float64 by the number of students. That is the arithmetic mean of the grades, their
  exact sum divided by their number, whenever the grades are finite numbers and nothing
  rounds: every partial sum, the count and the mean are float64 values. The slice is
  only read: the loop copies each element into \<open>student\<close>, and the function is one of
  the elements alone.
\<close>

theorem calculateAverageStack_exact_mean:
  "calculateAverageStack students =
     Some (if students = [] then Num 0
           else fdiv (float64_sum_of_grades students) (float64_of_int (int (length students))))
   \<and> (students \<noteq> [] \<and> map Grade students = map Num qs
        \<and> (\<forall>k\<le>length qs. representable (sum_list (take k qs)))
        \<and> representable (of_nat (length qs))
        \<and> representable (exact_mean qs)
      \<longrightarrow> calculateAverageStack students = Some (Num (exact_mean qs)))"
proof (intro conjI impI)
  show g: "calculateAverageStack students =
     Some (if students = [] then Num 0
           else fdiv (float64_sum_of_grades students) (float64_of_int (int (length students))))"
    by (simp add: calculateAverageStack_eq float64_average_def)
  assume h: "students \<noteq> [] \<and> map Grade students = map Num qs
        \<and> (\<forall>k\<le>length qs. representable (sum_list (take k qs)))
        \<and> representable (of_nat (length qs))
        \<and> representable (exact_mean qs)"
  then have len: "length students = length qs"
    by (metis length_map)
  with h have pos: "(0::rat) < of_nat (length qs)"
    by auto
  from h have "\<forall>k\<le>length qs. representable (0 + sum_list (take k qs))"
    by simp
  then have "foldl fadd (Num 0) (map Num qs) = Num (0 + sum_list qs)"
    by (rule foldl_fadd_exact)
  with h have s: "float64_sum_of_grades students = Num (sum_list qs)"
    by (simp add: float64_sum_of_grades_def)
  from h have n: "float64_of_int (int (length students)) = Num (of_nat (length qs))"
    by (simp add: float64_of_int_def representable_def len)
  from h have "representable (sum_list qs / of_nat (length qs))"
    by (simp add: exact_mean_def)
  with pos have "fdiv (Num (sum_list qs)) (Num (of_nat (length qs)))
      = Num (sum_list qs / of_nat (length qs))"
    by (rule fdiv_exact)
  then have "fdiv (Num (sum_list qs)) (Num (of_nat (length qs))) = Num (exact_mean qs)"
    by (simp only: exact_mean_def)
  with h g s n show "calculateAverageStack students = Some (Num (exact_mean qs))"
    by simp
qed

theorem calculateAverageStack_exact_mean_witness:
  "calculateAverageStack
     [\<lparr>ID = 1, Name = ''Test1'', Grade = Num 85, Age = 20\<rparr>,
      \<lparr>ID = 2, Name = ''Test2'', Grade = Num 90, Age = 21\<rparr>] = Some (Num (175 / 2))"
proof -
  have k: "\<forall>k\<le>length [85, 90 :: rat]. representable (sum_list (take k [85, 90]))"
  proof (intro allI impI)
    fix k :: nat assume "k \<le> length [85, 90 :: rat]"
    then have "k = 0 \<or> k = 1 \<or> k = 2" by auto
    then show "representable (sum_list (take k [85, 90]))"
      by (auto simp: representable_def round64_values)
  qed
  have n: "representable (of_nat (length [85, 90 :: rat]))"
    by (simp add: representable_def round64_values)
  have m: "representable (exact_mean [85, 90])"
    by (simp add: representable_def exact_mean_def round64_values)
  let ?students = "[\<lparr>ID = 1, Name = ''Test1'', Grade = Num 85, Age = 20\<rparr>,
                    \<lparr>ID = 2, Name = ''Test2'', Grade = Num 90, Age = 21\<rparr>]"
  have "?students \<noteq> [] \<and> map Grade ?students = map Num [85, 90]"
    by simp
  with k n m calculateAverageStack_exact_mean [of ?students "[85, 90]"]
  have "calculateAverageStack ?students = Some (Num (exact_mean [85, 90]))"
    by blast
  then show ?thesis
    by (simp add: exact_mean_def)
qed

text \<open>
  The claim as it is written fails where an addition rounds: for the grades 1, \<open>2^53\<close>
  and \<open>-2^53\<close> the sum \<open>1 + 2^53\<close> rounds to \<open>2^53\<close>, so calculateAverageStack
  returns 0, while the arithmetic mean is 1/3, which does not round to 0.
\<close>

theorem calculateAverageStack_is_not_the_exact_mean:
  "calculateAverageStack
     [\<lparr>ID = 1, Name = ''a'', Grade = Num 1, Age = 20\<rparr>,
      \<lparr>ID = 2, Name = ''b'', Grade = Num 9007199254740992, Age = 20\<rparr>,
      \<lparr>ID = 3, Name = ''c'', Grade = Num (- 9007199254740992), Age = 20\<rparr>] = Some (Num 0)
   \<and> exact_mean [1, 9007199254740992, - 9007199254740992] = 1 / 3
   \<and> round64 (1 / 3) \<noteq> Num 0"
  by (simp add: calculateAverageStack_eq float64_average_def float64_sum_of_grades_def
      float64_of_int_def round64_values exact_mean_def signed_zero_def)

text \<open>
  C6. For a non-nil pointer, updateGradeInPlace returns without a panic, the record
  pointed to has the new Grade, and its ID, Name and Age are what they were.
\<close>

theorem updateGradeInPlace_sets_Grade_only:
  "\<exists>\<sigma>'. updateGradeInPlace (Some a) g \<sigma> = Inr \<sigma>'
        \<and> Grade (heap \<sigma>' a) = g
        \<and> ID (heap \<sigma>' a) = ID (heap \<sigma> a)
        \<and> Name (heap \<sigma>' a) = Name (heap \<sigma> a)
        \<and> Age (heap \<sigma>' a) = Age (heap \<sigma> a)"
  by (simp add: updateGradeInPlace_def)

theorem updateGradeInPlace_sets_Grade_only_witness:
  "\<exists>\<sigma>'. updateGradeInPlace (Some 0) (Num 95) init_state = Inr \<sigma>'
        \<and> Grade (heap \<sigma>' 0) = Num 95 \<and> Name (heap \<sigma>' 0) = []"
proof -
  from updateGradeInPlace_sets_Grade_only [of 0 "Num 95" init_state]
  obtain \<sigma>' where "updateGradeInPlace (Some 0) (Num 95) init_state = Inr \<sigma>'"
    and "Grade (heap \<sigma>' 0) = Num 95"
    and "Name (heap \<sigma>' 0) = Name (heap init_state 0)"
    by blast
  then show ?thesis
    by (auto simp: init_state_def zero_Student_def)
qed

text \<open>
  C7. createStudentByPointer returns a non-nil pointer to a record equal, field for
  field, to the record createStudentByValue returns for the same arguments. Both
  compute Age as 18 + id % 10, where \<^verbatim>\<open>%\<close> is Go's remainder; the sum does not wrap,
  and for an id that is not negative the remainder is id mod 10.
\<close>

theorem createStudentByPointer_equals_ByValue:
  "\<exists>a \<sigma>'. createStudentByPointer i n g \<sigma> = (Some a, \<sigma>')
        \<and> heap \<sigma>' a = createStudentByValue i n g
        \<and> ID (heap \<sigma>' a) = i \<and> Name (heap \<sigma>' a) = n \<and> Grade (heap \<sigma>' a) = g
        \<and> Age (heap \<sigma>' a) = 18 + rem64 i 10
        \<and> sint (Age (heap \<sigma>' a)) = 18 + sint i smod 10
        \<and> (0 \<le> sint i \<longrightarrow> sint (Age (heap \<sigma>' a)) = 18 + sint i mod 10)"
proof -
  have h: "heap (snd (createStudentByPointer i n g \<sigma>)) (next_addr \<sigma>) = createStudentByValue i n g"
    by (simp add: createStudentByPointer_def createStudentByValue_def new_Student_def)
  have p: "createStudentByPointer i n g \<sigma> =
             (Some (next_addr \<sigma>), snd (createStudentByPointer i n g \<sigma>))"
    by (simp add: createStudentByPointer_def new_Student_def)
  have m: "0 \<le> sint i \<longrightarrow> sint i smod 10 = sint i mod 10"
    by (simp add: signed_modulo_int_def sgn_if)
  show ?thesis
    using h p m sint_Age_createStudentByValue [of i n g]
    by (intro exI [of _ "next_addr \<sigma>"] exI [of _ "snd (createStudentByPointer i n g \<sigma>)"])
       (simp add: createStudentByValue_def)
qed

theorem createStudentByPointer_equals_ByValue_witness:
  "\<exists>a \<sigma>'. createStudentByPointer 2 ''Bob'' (Num 92) init_state = (Some a, \<sigma>')
        \<and> heap \<sigma>' a = createStudentByValue 2 ''Bob'' (Num 92)
        \<and> sint (Age (heap \<sigma>' a)) = 20"
proof -
  have "sint (2 :: 64 word) = 2"
    by simp
  then show ?thesis
    using createStudentByPointer_equals_ByValue [of 2 "''Bob''" "Num 92" init_state]
    by auto
qed

text \<open>
  C8. For pointers to three records, calculateGPAPointer returns what calculateGPAValue
  returns on the three records, the sum of the three grades divided by 3.0, and leaves
  the state, so the three records, as they were.
\<close>

theorem calculateGPAPointer_equals_Value:
  assumes "heap \<sigma> pa = a" and "heap \<sigma> pb = b" and "heap \<sigma> pc = c"
  shows "calculateGPAPointer (Some pa) (Some pb) (Some pc) \<sigma> = Inr (calculateGPAValue a b c, \<sigma>)
         \<and> calculateGPAValue a b c = fdiv (fadd (fadd (Grade a) (Grade b)) (Grade c)) (Num 3)"
  using assms by (simp add: calculateGPAPointer_def calculateGPAValue_def)

theorem calculateGPAPointer_equals_Value_witness:
  "calculateGPAPointer (Some 0) (Some 1) (Some 2) init_state
     = Inr (calculateGPAValue zero_Student zero_Student zero_Student, init_state)"
  using calculateGPAPointer_equals_Value
    [of init_state 0 zero_Student 1 zero_Student 2 zero_Student]
  by (simp add: init_state_def)

text \<open>
  C9. escapesToHeap4 stores in globalStudent a non-nil pointer to a new record with ID 6,
  Name "Frank", Grade 82.0 and Age 23. main calls escapesToHeap4, so it too ends with
  globalStudent pointing to that record. Every other function that has the state returns
  with globalStudent as it found it. The remaining functions (calculateGPAValue,
  createStudentCopy, addStudentToClass, createStudentByValue, staysOnStack2 and the five
  average functions) have no access to the state.
\<close>

theorem globalStudent_written_through_escapesToHeap4_only:
  "globalStudent (escapesToHeap4 \<sigma>) = Some (next_addr \<sigma>)
   \<and> heap (escapesToHeap4 \<sigma>) (next_addr \<sigma>)
         = \<lparr>ID = 6, Name = ''Frank'', Grade = Num 82, Age = 23\<rparr>
   \<and> (\<exists>\<sigma>'. main \<sigma> = Some (Inr \<sigma>')
          \<and> globalStudent \<sigma>' = Some (next_addr \<sigma> + 1)
          \<and> heap \<sigma>' (next_addr \<sigma> + 1) = \<lparr>ID = 6, Name = ''Frank'', Grade = Num 82, Age = 23\<rparr>)
   \<and> globalStudent (modifyStudentValue s \<sigma>) = globalStudent \<sigma>
   \<and> (\<exists>\<sigma>'. modifyStudentPointer p \<sigma> = Inr \<sigma>' \<and> globalStudent \<sigma>' = globalStudent \<sigma>)
   \<and> (\<exists>r \<sigma>'. calculateGPAPointer p1 p2 p3 \<sigma> = Inr (r, \<sigma>') \<and> globalStudent \<sigma>' = globalStudent \<sigma>)
   \<and> (\<exists>\<sigma>'. updateGradeInPlace p g \<sigma> = Inr \<sigma>' \<and> globalStudent \<sigma>' = globalStudent \<sigma>)
   \<and> (\<exists>r \<sigma>'. modifyGradesSlice grades \<sigma> = Some (r, \<sigma>') \<and> globalStudent \<sigma>' = globalStudent \<sigma>)
   \<and> globalStudent (demonstrateValueBehavior \<sigma>) = globalStudent \<sigma>
   \<and> (\<exists>\<sigma>'. demonstratePointerBehavior \<sigma> = Inr \<sigma>' \<and> globalStudent \<sigma>' = globalStudent \<sigma>)
   \<and> (\<exists>\<sigma>'. demonstrateSliceBehavior \<sigma> = Some (Inr \<sigma>') \<and> globalStudent \<sigma>' = globalStudent \<sigma>)
   \<and> (\<exists>\<sigma>'. demonstrateWhenToUseEach \<sigma> = Inr \<sigma>' \<and> globalStudent \<sigma>' = globalStudent \<sigma>)
   \<and> (\<exists>\<sigma>'. runValueVsPointerDemo \<sigma> = Some (Inr \<sigma>') \<and> globalStudent \<sigma>' = globalStudent \<sigma>)
   \<and> globalStudent (snd (createStudentByPointer i n g \<sigma>)) = globalStudent \<sigma>
   \<and> (\<exists>\<sigma>'. runPerformanceTest m \<sigma> = Some \<sigma>' \<and> globalStudent \<sigma>' = globalStudent \<sigma>)
   \<and> (\<exists>\<sigma>'. runStackVsHeapDemo m \<sigma> = Some \<sigma>' \<and> globalStudent \<sigma>' = globalStudent \<sigma>)
   \<and> globalStudent (staysOnStack1 \<sigma>) = globalStudent \<sigma>
   \<and> globalStudent (staysOnStack3 \<sigma>) = globalStudent \<sigma>
   \<and> globalStudent (processStudent s \<sigma>) = globalStudent \<sigma>
   \<and> globalStudent (snd (escapesToHeap1 \<sigma>)) = globalStudent \<sigma>
   \<and> globalStudent (escapesToHeap2 \<sigma>) = globalStudent \<sigma>
   \<and> globalStudent (escapesToHeap3 \<sigma>) = globalStudent \<sigma>"
proof -
  have e4: "globalStudent (escapesToHeap4 \<sigma>) = Some (next_addr \<sigma>)
      \<and> heap (escapesToHeap4 \<sigma>) (next_addr \<sigma>)
            = \<lparr>ID = 6, Name = ''Frank'', Grade = Num 82, Age = 23\<rparr>"
    by (simp add: escapesToHeap4_def new_Student_def)
  have vp: "globalStudent (modifyStudentValue s \<sigma>) = globalStudent \<sigma>"
    by (simp add: modifyStudentValue_def Let_def)
  have mp: "\<exists>\<sigma>'. modifyStudentPointer p \<sigma> = Inr \<sigma>' \<and> globalStudent \<sigma>' = globalStudent \<sigma>"
    by (cases p) (simp_all add: modifyStudentPointer_def)
  have gp: "\<exists>r \<sigma>'. calculateGPAPointer p1 p2 p3 \<sigma> = Inr (r, \<sigma>')
      \<and> globalStudent \<sigma>' = globalStudent \<sigma>"
    by (cases p1; cases p2; cases p3) (simp_all add: calculateGPAPointer_def)
  have ug: "\<exists>\<sigma>'. updateGradeInPlace p g \<sigma> = Inr \<sigma>' \<and> globalStudent \<sigma>' = globalStudent \<sigma>"
    by (cases p) (simp_all add: updateGradeInPlace_def)
  have mg: "\<exists>r \<sigma>'. modifyGradesSlice grades \<sigma> = Some (r, \<sigma>')
      \<and> globalStudent \<sigma>' = globalStudent \<sigma>"
    by (simp add: modifyGradesSlice_eq)
  have cp: "globalStudent (snd (createStudentByPointer i n g \<sigma>)) = globalStudent \<sigma>"
    by (simp add: createStudentByPointer_def new_Student_def)
  have st: "globalStudent (staysOnStack1 \<sigma>) = globalStudent \<sigma>"
    "globalStudent (staysOnStack3 \<sigma>) = globalStudent \<sigma>"
    "globalStudent (processStudent s \<sigma>) = globalStudent \<sigma>"
    "globalStudent (snd (escapesToHeap1 \<sigma>)) = globalStudent \<sigma>"
    "globalStudent (escapesToHeap2 \<sigma>) = globalStudent \<sigma>"
    "globalStudent (escapesToHeap3 \<sigma>) = globalStudent \<sigma>"
    by (simp_all add: staysOnStack1_def staysOnStack3_def processStudent_def escapesToHeap1_def
        escapesToHeap2_def escapesToHeap3_def new_Student_def Let_def)
  show ?thesis
    using e4 main_result [of \<sigma>] vp mp gp ug mg cp st
      demonstrateValueBehavior_frame [of \<sigma>] demonstratePointerBehavior_frame [of \<sigma>]
      demonstrateSliceBehavior_frame [of \<sigma>] demonstrateWhenToUseEach_frame [of \<sigma>]
      runValueVsPointerDemo_frame [of \<sigma>] runPerformanceTest_frame [of m \<sigma>]
      runStackVsHeapDemo_frame [of m \<sigma>]
    by blast
qed

theorem globalStudent_written_through_escapesToHeap4_only_witness:
  "globalStudent (escapesToHeap4 init_state) = Some 0
   \<and> heap (escapesToHeap4 init_state) 0 = \<lparr>ID = 6, Name = ''Frank'', Grade = Num 82, Age = 23\<rparr>
   \<and> globalStudent (escapesToHeap2 init_state) = None"
  using globalStudent_written_through_escapesToHeap4_only [of init_state]
  by (simp add: init_state_def)

text \<open>
  The claim as it is written fails for main: run from the initial state, where
  globalStudent is nil, main returns with globalStudent holding the address 1.
\<close>

theorem main_changes_globalStudent:
  "globalStudent init_state = None
   \<and> map_option (map_sum id globalStudent) (main init_state) = Some (Inr (Some 1))
   \<and> map_option (map_sum id globalStudent) (main init_state)
       \<noteq> Some (Inr (globalStudent init_state))"
proof -
  obtain \<sigma>' where "main init_state = Some (Inr \<sigma>')"
    and "globalStudent \<sigma>' = Some (next_addr init_state + 1)"
    using main_result [of init_state] by blast
  then show ?thesis
    by (simp add: init_state_def)
qed

text \<open>
  C10. Every function with a loop, and every function that calls one, returns on every
  input: each loop, started at any index and with any values of its variables, ends, the
  range loops after the elements of the slice and the timed loops of runPerformanceTest
  at the constant \<open>iterations\<close>. The other functions have no loop and no recursion.
\<close>

theorem every_function_returns:
  "(\<exists>r. calculateAverageStack_loop students i t c = Some r)
   \<and> (\<exists>r. calculateAverageStack students = Some r)
   \<and> (\<exists>r. collect_grades_loop students i grades = Some r)
   \<and> (\<exists>r. sum_grades_loop grades i t = Some r)
   \<and> (\<exists>r. calculateAverageHeap students = Some r)
   \<and> (\<exists>r. calculateAverageOptimized students = Some r)
   \<and> (\<exists>r. modifyGradesSlice_loop grades i = Some r)
   \<and> (\<exists>r. modifyGradesSlice grades \<sigma> = Some r)
   \<and> (\<exists>r. demonstrateSliceBehavior_loop students i \<sigma> = Some r)
   \<and> (\<exists>r. demonstrateSliceBehavior \<sigma> = Some r)
   \<and> (\<exists>r. runValueVsPointerDemo \<sigma> = Some r)
   \<and> (\<exists>r. runPerformanceTest_fill students i = Some r)
   \<and> (\<exists>r. runPerformanceTest_loop calculateAverageStack students i = Some r)
   \<and> (\<exists>r. runPerformanceTest_loop calculateAverageHeap students i = Some r)
   \<and> (\<exists>r. runPerformanceTest_loop calculateAverageOptimized students i = Some r)
   \<and> (\<exists>r. runPerformanceTest m \<sigma> = Some r)
   \<and> (\<exists>r. runStackVsHeapDemo m \<sigma> = Some r)
   \<and> (\<exists>r. calculateAverageStacks_loop students i t = Some r)
   \<and> (\<exists>r. calculateAverageStacks students = Some r)
   \<and> (\<exists>r. calculateAverageHeaps students = Some r)
   \<and> (\<exists>r. main \<sigma> = Some r)"
proof -
  have avg: "\<exists>r. calculateAverageStack students = Some r"
    "\<exists>r. calculateAverageHeap students = Some r"
    "\<exists>r. calculateAverageOptimized students = Some r"
    by (simp_all add: calculateAverageStack_eq calculateAverageHeap_eq calculateAverageOptimized_eq)
  have timed: "\<exists>r. runPerformanceTest_loop calculateAverageStack students i = Some r"
    "\<exists>r. runPerformanceTest_loop calculateAverageHeap students i = Some r"
    "\<exists>r. runPerformanceTest_loop calculateAverageOptimized students i = Some r"
    using avg by (simp_all add: runPerformanceTest_loop_returns)
  have loops: "\<exists>r. calculateAverageStack_loop students i t c = Some r"
    "\<exists>r. collect_grades_loop students i grades = Some r"
    "\<exists>r. sum_grades_loop grades i t = Some r"
    "\<exists>r. modifyGradesSlice_loop grades i = Some r"
    "\<exists>r. modifyGradesSlice grades \<sigma> = Some r"
    "\<exists>r. demonstrateSliceBehavior_loop students i \<sigma> = Some r"
    "\<exists>r. calculateAverageStacks_loop students i t = Some r"
    "\<exists>r. calculateAverageStacks students = Some r"
    "\<exists>r. calculateAverageHeaps students = Some r"
    by (simp_all add: calculateAverageStack_loop_eq collect_grades_loop_eq sum_grades_loop_eq
        modifyGradesSlice_loop_eq modifyGradesSlice_eq demonstrateSliceBehavior_loop_eq
        calculateAverageStacks_loop_eq calculateAverageStacks_eq calculateAverageHeaps_eq)
  show ?thesis
    using avg timed loops runPerformanceTest_fill_returns [of students i]
      demonstrateSliceBehavior_frame [of \<sigma>] runValueVsPointerDemo_frame [of \<sigma>]
      runPerformanceTest_frame [of m \<sigma>] runStackVsHeapDemo_frame [of m \<sigma>] main_result [of \<sigma>]
    by blast
qed

theorem every_function_returns_witness:
  "(\<exists>r. calculateAverageHeap [zero_Student] = Some r)
   \<and> (\<exists>r. modifyGradesSlice [Num 85, Num 92] init_state = Some r)
   \<and> (\<exists>r. main init_state = Some r)"
  using every_function_returns [of "[zero_Student]" 0 "Num 0" 0 "[Num 85, Num 92]" init_state]
  by blast

end
